theory Spec2Isabelle
  imports Main
begin

section \<open>JSON values\<close>

text \<open>
  The handler \<open>POST\<close> of \<open>src/frontend/src/app/api/incidents/route.ts\<close> reads the request
  body with \<open>req.json()\<close> and hands the value to the zod schema \<open>incidentSchema\<close>.
  A JSON value is modelled as the tree \<open>JSON.parse\<close> builds. A \<open>string\<close> stands for a
  JavaScript string, one \<open>char\<close> per UTF-16 code unit, so that \<open>length\<close> is the
  \<open>.length\<close> zod compares against. The numeric value of a number is never read by the
  handler. An object is the list of its own properties, keys pairwise different as
  \<open>JSON.parse\<close> leaves them; \<open>map_of\<close> is the property read \<open>data[key]\<close>, which
  gives \<open>undefined\<close> (here \<open>None\<close>) for an absent key.
\<close>

datatype json =
    JNull
  | JBool bool
  | JNum int
  | JStr string
  | JArr "json list"
  | JObj "(string \<times> json) list"

section \<open>The zod combinators used by the schema\<close>

text \<open>
  Only the part of zod that \<open>incidentSchema\<close> uses is modelled: \<open>z.string()\<close> with the
  checks \<open>min\<close>, \<open>max\<close> and \<open>cuid\<close>, \<open>z.enum\<close>, \<open>z.array(...).min\<close>, \<open>z.object\<close>,
  \<open>.optional()\<close> and \<open>.default(...)\<close>. A schema is its \<open>_parse\<close> method: from the path
  of the value and the value (\<open>None\<close> is \<open>undefined\<close>) to a status, an output value and
  the issues it added, in the order in which it added them. Of an issue the code and the
  path are kept; the message text and the \<open>expected\<close>/\<open>received\<close> fields are left out.
\<close>

datatype PathElem = Key string | Index nat

datatype ZodIssueCode =
  invalid_type | too_small | too_big | invalid_enum_value | invalid_string

datatype ZodIssue = ZodIssue (issue_code: ZodIssueCode) (issue_path: "PathElem list")

datatype ParseStatus = valid | dirty | aborted

datatype ParseReturn =
  ParseReturn (p_status: ParseStatus) (p_value: "json option") (p_issues: "ZodIssue list")

type_synonym ZodType = "PathElem list \<Rightarrow> json option \<Rightarrow> ParseReturn"

text \<open>\<open>INVALID\<close> after \<open>addIssueToContext\<close>: the parse of this value is aborted.\<close>

definition INVALID :: "ZodIssue list \<Rightarrow> ParseReturn" where
  "INVALID issues = ParseReturn aborted None issues"

text \<open>
  A string check is the test it applies and the code of the issue it adds when the
  test fails: \<open>.min(n)\<close> adds \<open>too_small\<close> when \<open>data.length < n\<close>, \<open>.max(n)\<close> adds
  \<open>too_big\<close> when \<open>data.length > n\<close>, \<open>.cuid()\<close> adds \<open>invalid_string\<close> when the
  library's cuid pattern does not match. The pattern belongs to the zod release in use,
  which the repository does not pin in the files at hand; it is the parameter \<open>isCuid\<close>.
\<close>

type_synonym ZodStringCheck = "(string \<Rightarrow> bool) \<times> ZodIssueCode"

definition z_min :: "nat \<Rightarrow> ZodStringCheck" where
  "z_min n = (\<lambda>s. \<not> length s < n, too_small)"

definition z_max :: "nat \<Rightarrow> ZodStringCheck" where
  "z_max n = (\<lambda>s. \<not> length s > n, too_big)"

definition z_cuid :: "(string \<Rightarrow> bool) \<Rightarrow> ZodStringCheck" where
  "z_cuid isCuid = (isCuid, invalid_string)"

definition check_issues :: "PathElem list \<Rightarrow> string \<Rightarrow> ZodStringCheck list \<Rightarrow> ZodIssue list" where
  "check_issues p s checks =
     map (\<lambda>c. ZodIssue (snd c) p) (filter (\<lambda>c. \<not> fst c s) checks)"

text \<open>
  \<open>ZodString._parse\<close>: a value that is not a string aborts with \<open>invalid_type\<close>; on a
  string every check runs, each failure adds its issue and makes the status dirty.
\<close>

definition z_string :: "ZodStringCheck list \<Rightarrow> ZodType" where
  "z_string checks p input =
     (case input of
        Some (JStr s) \<Rightarrow>
          (let issues = check_issues p s checks
           in ParseReturn (if issues = [] then valid else dirty) (Some (JStr s)) issues)
      | _ \<Rightarrow> INVALID [ZodIssue invalid_type p])"

text \<open>
  \<open>ZodEnum._parse\<close>: not a string aborts with \<open>invalid_type\<close>, a string outside the
  values aborts with \<open>invalid_enum_value\<close>.
\<close>

definition z_enum :: "string list \<Rightarrow> ZodType" where
  "z_enum vals p input =
     (case input of
        Some (JStr s) \<Rightarrow>
          (if s \<in> set vals then ParseReturn valid (Some (JStr s)) []
           else INVALID [ZodIssue invalid_enum_value p])
      | _ \<Rightarrow> INVALID [ZodIssue invalid_type p])"

text \<open>
  \<open>ParseStatus.mergeArray\<close>: aborted as soon as one element is, dirty when the array
  or an element is, and the output is the array of the elements' outputs.
\<close>

definition mergeArray :: "ZodIssue list \<Rightarrow> ParseReturn list \<Rightarrow> ParseReturn" where
  "mergeArray own results =
     (let issues = own @ concat (map p_issues results)
      in if list_ex (\<lambda>r. p_status r = aborted) results then INVALID issues
         else ParseReturn
                (if own \<noteq> [] \<or> list_ex (\<lambda>r. p_status r = dirty) results then dirty else valid)
                (Some (JArr (concat (map (\<lambda>r. case p_value r of None \<Rightarrow> [] | Some v \<Rightarrow> [v]) results))))
                issues)"

text \<open>
  \<open>ZodArray._parse\<close> with an optional \<open>.min(n)\<close>: not an array aborts; a short array
  adds \<open>too_small\<close> at the array's own path and goes on; every element is parsed at the
  path extended by its index.
\<close>

definition z_array :: "ZodType \<Rightarrow> nat option \<Rightarrow> ZodType" where
  "z_array elem minLength p input =
     (case input of
        Some (JArr xs) \<Rightarrow>
          mergeArray
            (case minLength of
               None \<Rightarrow> []
             | Some n \<Rightarrow> if length xs < n then [ZodIssue too_small p] else [])
            (map (\<lambda>(i, x). elem (p @ [Index i]) (Some x)) (enumerate 0 xs))
      | _ \<Rightarrow> INVALID [ZodIssue invalid_type p])"

text \<open>
  \<open>ParseStatus.mergeObjectSync\<close>: all the keys of the shape have been parsed when it
  runs, so the issues of all of them are there; the result is aborted when one value
  is, and a key whose output is \<open>undefined\<close> is not set.
\<close>

definition mergeObjectSync :: "(string \<times> ParseReturn) list \<Rightarrow> ParseReturn" where
  "mergeObjectSync pairs =
     (let issues = concat (map (\<lambda>(k, r). p_issues r) pairs)
      in if list_ex (\<lambda>(k, r). p_status r = aborted) pairs then INVALID issues
         else ParseReturn
                (if list_ex (\<lambda>(k, r). p_status r = dirty) pairs then dirty else valid)
                (Some (JObj (concat (map (\<lambda>(k, r). case p_value r of None \<Rightarrow> [] | Some v \<Rightarrow> [(k, v)]) pairs))))
                issues)"

text \<open>
  \<open>ZodObject._parse\<close> in the default \<open>strip\<close> mode: not an object aborts; otherwise
  each key of the shape, in the order of the shape, is parsed on \<open>data[key]\<close> at the
  path extended by the key. Keys outside the shape are dropped.
\<close>

definition z_object :: "(string \<times> ZodType) list \<Rightarrow> ZodType" where
  "z_object shape p input =
     (case input of
        Some (JObj props) \<Rightarrow>
          mergeObjectSync (map (\<lambda>(k, t). (k, t (p @ [Key k]) (map_of props k))) shape)
      | _ \<Rightarrow> INVALID [ZodIssue invalid_type p])"

text \<open>\<open>ZodOptional._parse\<close>: \<open>undefined\<close> is accepted as it is.\<close>

definition z_optional :: "ZodType \<Rightarrow> ZodType" where
  "z_optional t p input =
     (case input of None \<Rightarrow> ParseReturn valid None [] | Some v \<Rightarrow> t p input)"

text \<open>\<open>ZodDefault._parse\<close>: \<open>undefined\<close> is replaced by the default before the inner parse.\<close>

definition z_default :: "ZodType \<Rightarrow> json \<Rightarrow> ZodType" where
  "z_default t d p input = t p (case input of None \<Rightarrow> Some d | Some v \<Rightarrow> Some v)"

text \<open>
  \<open>safeParse\<close>: success exactly when the status is valid; the failure carries
  \<open>error.errors\<close>, the issues.
\<close>

datatype SafeParseReturn =
    SafeParseSuccess "json option"
  | SafeParseError "ZodIssue list"

definition safeParse :: "ZodType \<Rightarrow> json \<Rightarrow> SafeParseReturn" where
  "safeParse t data =
     (let r = t [] (Some data)
      in if p_status r = valid then SafeParseSuccess (p_value r) else SafeParseError (p_issues r))"

definition success :: "SafeParseReturn \<Rightarrow> bool" where
  "success v = (case v of SafeParseSuccess d \<Rightarrow> True | SafeParseError e \<Rightarrow> False)"

section \<open>The schema of a create request\<close>

definition incidentSchema :: "(string \<Rightarrow> bool) \<Rightarrow> ZodType" where
  "incidentSchema isCuid = z_object
     [ (''title'', z_string [z_min 1, z_max 100]),
       (''description'', z_string [z_min 10, z_max 1000]),
       (''status'', z_enum [''investigating'', ''identified'', ''monitoring'', ''resolved'']),
       (''impact'', z_enum [''minor'', ''major'', ''critical'']),
       (''serviceIds'', z_array (z_string [z_cuid isCuid]) (Some 1)),
       (''organizationId'', z_string [z_cuid isCuid]),
       (''type'', z_default (z_optional (z_enum [''incident'', ''maintenance''])) (JStr ''incident'')) ]"

section \<open>The store, the transport and the identity provider\<close>

text \<open>
  The rows of the four tables the handler touches, with the columns it reads or writes.
  The Prisma schema is not among the files at hand; the columns of a service besides its
  identity and owner are the ones the form \<open>incident-form.tsx\<close> displays.
\<close>

record Organization =
  organization_id :: string
  clerkOrgId :: string

record Service =
  service_id :: string
  service_name :: string
  service_description :: "string option"
  service_organizationId :: string

record Incident =
  incident_id :: string
  incident_title :: string
  incident_description :: string
  incident_status :: string
  incident_impact :: string
  incident_type :: string
  incident_organizationId :: string
  incident_startedAt :: nat

record IncidentService =
  incidentId :: string
  serviceId :: string

record Db =
  db_organization :: "Organization list"
  db_service :: "Service list"
  db_incident :: "Incident list"
  db_incidentService :: "IncidentService list"

text \<open>
  What \<open>findUnique\<close> with \<open>include: { services: { include: { service: true } } }\<close>
  returns: the incident row, with its association rows, each with its service row.
\<close>

record IncidentServiceWithService =
  link :: IncidentService
  service :: Service

record IncidentWithServices =
  incident :: Incident
  services :: "IncidentServiceWithService list"

text \<open>
  What the collaborators do during one request: the session \<open>auth()\<close> yields, the value
  \<open>req.json()\<close> resolves to (\<open>None\<close> when the body is not JSON and the promise rejects),
  which calls of the store and of the transport reject, the identity the store gives the
  new incident row, and the clock read by \<open>new Date()\<close>.
\<close>

datatype StoreCall =
    OrganizationFindFirst
  | ServiceCount
  | IncidentCreate
  | IncidentServiceCreateMany
  | IncidentFindUnique
  | TransactionCommit

datatype Thrown =
    SyntaxError
  | TypeError
  | StoreError StoreCall
  | PusherError

record Env =
  auth_userId :: "string option"
  auth_orgId :: "string option"
  req_json :: "json option"
  store_fails :: "StoreCall \<Rightarrow> bool"
  trigger_fails :: bool
  generated_id :: string
  date_now :: nat

text \<open>
  The state outside the handler: the store, the events handed to the real-time
  transport (channel, event name, payload), oldest first, and what \<open>console.error\<close>
  printed.
\<close>

record World =
  db :: Db
  pusher :: "(string \<times> string \<times> IncidentWithServices option) list"
  console :: "(string \<times> Thrown) list"

datatype ResponseBody =
    ErrorBody string
  | InvalidData "ZodIssue list"
  | IncidentBody "IncidentWithServices option"

datatype NextResponse = NextResponse_json (response_body: ResponseBody) (response_status: nat)

subsection \<open>The calls of the store\<close>

text \<open>
  A call of the store either rejects or does what Prisma documents for it. Rejection is
  left to \<open>store_fails\<close>, which stands for every reason the store may have: an
  unreachable database as well as a violated constraint.
\<close>

definition db_organization_findFirst ::
  "Env \<Rightarrow> Db \<Rightarrow> string \<Rightarrow> string \<Rightarrow> Thrown + Organization option" where
  "db_organization_findFirst env d ident clerk =
     (if store_fails env OrganizationFindFirst then Inl (StoreError OrganizationFindFirst)
      else Inr (find (\<lambda>r. organization_id r = ident \<and> clerkOrgId r = clerk) (db_organization d)))"

definition db_service_count :: "Env \<Rightarrow> Db \<Rightarrow> string list \<Rightarrow> string \<Rightarrow> Thrown + nat" where
  "db_service_count env d ids org =
     (if store_fails env ServiceCount then Inl (StoreError ServiceCount)
      else Inr (length (filter (\<lambda>r. service_id r \<in> set ids \<and> service_organizationId r = org)
                         (db_service d))))"

definition tx_incident_create :: "Env \<Rightarrow> Incident \<Rightarrow> Db \<Rightarrow> Thrown + Incident \<times> Db" where
  "tx_incident_create env row tx =
     (if store_fails env IncidentCreate then Inl (StoreError IncidentCreate)
      else Inr (row, tx\<lparr>db_incident := db_incident tx @ [row]\<rparr>))"

definition tx_incidentService_createMany ::
  "Env \<Rightarrow> IncidentService list \<Rightarrow> Db \<Rightarrow> Thrown + Db" where
  "tx_incidentService_createMany env rows tx =
     (if store_fails env IncidentServiceCreateMany then Inl (StoreError IncidentServiceCreateMany)
      else Inr (tx\<lparr>db_incidentService := db_incidentService tx @ rows\<rparr>))"

definition include_services :: "Db \<Rightarrow> Incident \<Rightarrow> IncidentWithServices" where
  "include_services tx row =
     \<lparr> incident = row,
       services =
         concat (map (\<lambda>l. map (\<lambda>s. \<lparr>link = l, service = s\<rparr>)
                           (filter (\<lambda>s. service_id s = serviceId l) (db_service tx)))
                     (filter (\<lambda>l. incidentId l = incident_id row) (db_incidentService tx))) \<rparr>"

definition tx_incident_findUnique ::
  "Env \<Rightarrow> string \<Rightarrow> Db \<Rightarrow> Thrown + IncidentWithServices option" where
  "tx_incident_findUnique env ident tx =
     (if store_fails env IncidentFindUnique then Inl (StoreError IncidentFindUnique)
      else Inr (map_option (include_services tx)
                  (find (\<lambda>r. incident_id r = ident) (db_incident tx))))"

text \<open>
  \<open>db.$transaction(async (tx) => ...)\<close>: the callback works on the transaction's view
  of the store; when it throws, or when the commit fails, the store is left as it was
  and the error is thrown on; otherwise the view becomes the store.
\<close>

definition db_transaction ::
  "Env \<Rightarrow> (Db \<Rightarrow> Thrown + 'a \<times> Db) \<Rightarrow> Db \<Rightarrow> (Thrown + 'a) \<times> Db" where
  "db_transaction env callback d =
     (case callback d of
        Inl e \<Rightarrow> (Inl e, d)
      | Inr (r, tx) \<Rightarrow>
          if store_fails env TransactionCommit then (Inl (StoreError TransactionCommit), d)
          else (Inr r, tx))"

text \<open>\<open>pusherServer.trigger\<close>: the event is handed to the transport, or the call rejects.\<close>

definition pusherServer_trigger ::
  "Env \<Rightarrow> string \<Rightarrow> string \<Rightarrow> IncidentWithServices option \<Rightarrow> World \<Rightarrow> Thrown + World" where
  "pusherServer_trigger env channel event payload w =
     (if trigger_fails env then Inl PusherError
      else Inr (w\<lparr>pusher := pusher w @ [(channel, event, payload)]\<rparr>))"

section \<open>The handler\<close>

text \<open>
  \<open>validation.data\<close>, as the destructuring in the handler reads it. The static type
  \<open>z.infer\<close> promises strings and a string array; the readers below are total and a
  property of another shape reads as the empty string.
\<close>

record IncidentData =
  title :: string
  description :: string
  status :: string
  impact :: string
  serviceIds :: "string list"
  organizationId :: string
  type :: string

fun field :: "json \<Rightarrow> string \<Rightarrow> json option" where
  "field (JObj props) k = map_of props k"
| "field _ k = None"

fun str :: "json option \<Rightarrow> string" where
  "str (Some (JStr s)) = s"
| "str _ = []"

fun strs :: "json option \<Rightarrow> string list" where
  "strs (Some (JArr xs)) = map (\<lambda>x. str (Some x)) xs"
| "strs _ = []"

definition destructure :: "json option \<Rightarrow> Thrown + IncidentData" where
  "destructure data =
     (case data of
        None \<Rightarrow> Inl TypeError
      | Some d \<Rightarrow>
          Inr \<lparr> title = str (field d ''title''),
                description = str (field d ''description''),
                status = str (field d ''status''),
                impact = str (field d ''impact''),
                serviceIds = strs (field d ''serviceIds''),
                organizationId = str (field d ''organizationId''),
                type = str (field d ''type'') \<rparr>)"

text \<open>
  \<open>!v\<close> on a value that is a string or \<open>null\<close>: the empty string is falsy too. In
  \<open>POST_try\<close> the test \<open>!userId || !orgId\<close> is split on \<open>orgId\<close> first, which gives
  the later lookup the string that \<open>orgId\<close> then is.
\<close>

definition falsy :: "string option \<Rightarrow> bool" where
  "falsy v = (case v of None \<Rightarrow> True | Some s \<Rightarrow> s = [])"

text \<open>The callback of the transaction (lines 71 to 101).\<close>

definition create_callback :: "Env \<Rightarrow> IncidentData \<Rightarrow> Db \<Rightarrow> Thrown + IncidentWithServices option \<times> Db" where
  "create_callback env data tx =
     (case tx_incident_create env
             \<lparr> incident_id = generated_id env,
               incident_title = title data,
               incident_description = description data,
               incident_status = status data,
               incident_impact = impact data,
               incident_type = type data,
               incident_organizationId = organizationId data,
               incident_startedAt = date_now env \<rparr> tx of
        Inl e \<Rightarrow> Inl e
      | Inr (created, tx1) \<Rightarrow>
          (case tx_incidentService_createMany env
                  (map (\<lambda>sid. \<lparr>incidentId = incident_id created, serviceId = sid\<rparr>) (serviceIds data))
                  tx1 of
             Inl e \<Rightarrow> Inl e
           | Inr tx2 \<Rightarrow>
               (case tx_incident_findUnique env (incident_id created) tx2 of
                  Inl e \<Rightarrow> Inl e
                | Inr found \<Rightarrow> Inr (found, tx2))))"

text \<open>
  The write and what follows it (lines 70 to 110): the transaction, then the trigger
  on the channel of the organization, then the response.
\<close>

definition write_and_notify :: "Env \<Rightarrow> IncidentData \<Rightarrow> World \<Rightarrow> (Thrown + NextResponse) \<times> World" where
  "write_and_notify env data w =
     (case db_transaction env (create_callback env data) (db w) of
        (Inl e, d) \<Rightarrow> (Inl e, w\<lparr>db := d\<rparr>)
      | (Inr created, d) \<Rightarrow>
          (case pusherServer_trigger env (''org-'' @ organizationId data) ''incident-created''
                  created (w\<lparr>db := d\<rparr>) of
             Inl e \<Rightarrow> (Inl e, w\<lparr>db := d\<rparr>)
           | Inr w' \<Rightarrow> (Inr (NextResponse_json (IncidentBody created) 200), w')))"

text \<open>
  The two lookups that scope the request to the caller's organization (lines 40 to 68),
  then the write.
\<close>

definition authorize_and_write ::
  "Env \<Rightarrow> string \<Rightarrow> IncidentData \<Rightarrow> World \<Rightarrow> (Thrown + NextResponse) \<times> World" where
  "authorize_and_write env orgId data w =
     (case db_organization_findFirst env (db w) (organizationId data) orgId of
        Inl e \<Rightarrow> (Inl e, w)
      | Inr None \<Rightarrow> (Inr (NextResponse_json (ErrorBody ''Organization not found'') 404), w)
      | Inr (Some organization) \<Rightarrow>
          (case db_service_count env (db w) (serviceIds data) (organizationId data) of
             Inl e \<Rightarrow> (Inl e, w)
           | Inr servicesCount \<Rightarrow>
               if servicesCount \<noteq> length (serviceIds data)
               then (Inr (NextResponse_json (ErrorBody ''One or more services not found'') 400), w)
               else write_and_notify env data w))"

text \<open>The body of the \<open>try\<close> block (lines 19 to 110).\<close>

definition POST_try :: "(string \<Rightarrow> bool) \<Rightarrow> Env \<Rightarrow> World \<Rightarrow> (Thrown + NextResponse) \<times> World" where
  "POST_try isCuid env w =
     (case auth_orgId env of
        None \<Rightarrow> (Inr (NextResponse_json (ErrorBody ''Unauthorized'') 401), w)
      | Some orgId \<Rightarrow>
          if falsy (auth_userId env) \<or> falsy (Some orgId)
          then (Inr (NextResponse_json (ErrorBody ''Unauthorized'') 401), w)
          else
            (case req_json env of
               None \<Rightarrow> (Inl SyntaxError, w)
             | Some json \<Rightarrow>
                 (case safeParse (incidentSchema isCuid) json of
                    SafeParseError errors \<Rightarrow> (Inr (NextResponse_json (InvalidData errors) 400), w)
                  | SafeParseSuccess parsed \<Rightarrow>
                      (case destructure parsed of
                         Inl e \<Rightarrow> (Inl e, w)
                       | Inr data \<Rightarrow> authorize_and_write env orgId data w))))"

text \<open>
  The handler: the \<open>catch\<close> block (lines 111 to 117) prints whatever was thrown and
  answers 500.
\<close>

definition POST :: "(string \<Rightarrow> bool) \<Rightarrow> Env \<Rightarrow> World \<Rightarrow> NextResponse \<times> World" where
  "POST isCuid env w =
     (case POST_try isCuid env w of
        (Inr response, w') \<Rightarrow> (response, w')
      | (Inl error, w') \<Rightarrow>
          (NextResponse_json (ErrorBody ''Internal server error'') 500,
           w'\<lparr>console := console w' @ [(''[INCIDENTS_POST]'', error)]\<rparr>))"

section \<open>The rules of the specification\<close>

text \<open>
  The rules of section 4.1 of the specification, each written from its sentence as a
  test on the property of the raw input (\<open>None\<close>: the property is absent). They are
  compared below with what the schema of the source computes.
\<close>

text \<open>title: non-empty, at most 100 characters.\<close>

definition title_rule :: "json option \<Rightarrow> bool" where
  "title_rule v = (case v of Some (JStr s) \<Rightarrow> s \<noteq> [] \<and> length s \<le> 100 | _ \<Rightarrow> False)"

text \<open>description: at least 10 and at most 1000 characters.\<close>

definition description_rule :: "json option \<Rightarrow> bool" where
  "description_rule v = (case v of Some (JStr s) \<Rightarrow> 10 \<le> length s \<and> length s \<le> 1000 | _ \<Rightarrow> False)"

text \<open>status is one of investigating, identified, monitoring, resolved.\<close>

definition status_rule :: "json option \<Rightarrow> bool" where
  "status_rule v =
     (case v of
        Some (JStr s) \<Rightarrow> s \<in> {''investigating'', ''identified'', ''monitoring'', ''resolved''}
      | _ \<Rightarrow> False)"

text \<open>impact is one of minor, major, critical.\<close>

definition impact_rule :: "json option \<Rightarrow> bool" where
  "impact_rule v = (case v of Some (JStr s) \<Rightarrow> s \<in> {''minor'', ''major'', ''critical''} | _ \<Rightarrow> False)"

text \<open>A syntactically valid entity identifier, for the identifier scheme \<open>isCuid\<close>.\<close>

definition identifier_rule :: "(string \<Rightarrow> bool) \<Rightarrow> json option \<Rightarrow> bool" where
  "identifier_rule isCuid v = (case v of Some (JStr s) \<Rightarrow> isCuid s | _ \<Rightarrow> False)"

text \<open>serviceIds: at least one element, each a syntactically valid entity identifier.\<close>

definition serviceIds_rule :: "(string \<Rightarrow> bool) \<Rightarrow> json option \<Rightarrow> bool" where
  "serviceIds_rule isCuid v =
     (case v of
        Some (JArr xs) \<Rightarrow> xs \<noteq> [] \<and> list_all (\<lambda>x. identifier_rule isCuid (Some x)) xs
      | _ \<Rightarrow> False)"

text \<open>type is one of incident, maintenance, and may be absent.\<close>

definition type_rule :: "json option \<Rightarrow> bool" where
  "type_rule v =
     (case v of
        None \<Rightarrow> True
      | Some (JStr s) \<Rightarrow> s \<in> {''incident'', ''maintenance''}
      | _ \<Rightarrow> False)"

text \<open>The fields of an object whose rule is violated.\<close>

definition violated :: "(string \<Rightarrow> bool) \<Rightarrow> (string \<times> json) list \<Rightarrow> string set" where
  "violated isCuid props =
     (if title_rule (map_of props ''title'') then {} else {''title''}) \<union>
     (if description_rule (map_of props ''description'') then {} else {''description''}) \<union>
     (if status_rule (map_of props ''status'') then {} else {''status''}) \<union>
     (if impact_rule (map_of props ''impact'') then {} else {''impact''}) \<union>
     (if serviceIds_rule isCuid (map_of props ''serviceIds'') then {} else {''serviceIds''}) \<union>
     (if identifier_rule isCuid (map_of props ''organizationId'') then {} else {''organizationId''}) \<union>
     (if type_rule (map_of props ''type'') then {} else {''type''})"

text \<open>The fields that the issues of a validation failure name: the first key of each path.\<close>

definition issue_keys :: "ZodIssue list \<Rightarrow> string set" where
  "issue_keys issues =
     set (concat (map (\<lambda>i. case issue_path i of Key k # rest \<Rightarrow> [k] | _ \<Rightarrow> []) issues))"

section \<open>Vocabulary of the statements\<close>

text \<open>When each combinator accepts, read off its definition.\<close>

definition string_ok :: "ZodStringCheck list \<Rightarrow> json option \<Rightarrow> bool" where
  "string_ok checks v = (case v of Some (JStr s) \<Rightarrow> list_all (\<lambda>c. fst c s) checks | _ \<Rightarrow> False)"

definition enum_ok :: "string list \<Rightarrow> json option \<Rightarrow> bool" where
  "enum_ok vals v = (case v of Some (JStr s) \<Rightarrow> s \<in> set vals | _ \<Rightarrow> False)"

definition array_ok :: "ZodStringCheck list \<Rightarrow> nat \<Rightarrow> json option \<Rightarrow> bool" where
  "array_ok checks n v =
     (case v of Some (JArr xs) \<Rightarrow> n \<le> length xs \<and> list_all (\<lambda>x. string_ok checks (Some x)) xs | _ \<Rightarrow> False)"

text \<open>The parses of the elements of an array of strings, the first element at index \<open>n\<close>.\<close>

definition elem_results :: "ZodStringCheck list \<Rightarrow> PathElem list \<Rightarrow> nat \<Rightarrow> json list \<Rightarrow> ParseReturn list" where
  "elem_results checks p n xs = map (\<lambda>(i, x). z_string checks (p @ [Index i]) (Some x)) (enumerate n xs)"

text \<open>The value of \<open>type\<close> after \<open>.default("incident")\<close>.\<close>

definition with_default :: "json option \<Rightarrow> json option" where
  "with_default v = (case v of None \<Rightarrow> Some (JStr ''incident'') | Some x \<Rightarrow> Some x)"

text \<open>What the handler destructures from an accepted object with the properties \<open>props\<close>.\<close>

definition parsed_data :: "(string \<times> json) list \<Rightarrow> IncidentData" where
  "parsed_data props =
     \<lparr> title = str (map_of props ''title''),
       description = str (map_of props ''description''),
       status = str (map_of props ''status''),
       impact = str (map_of props ''impact''),
       serviceIds = strs (map_of props ''serviceIds''),
       organizationId = str (map_of props ''organizationId''),
       type = str (with_default (map_of props ''type'')) \<rparr>"

text \<open>The session check of lines 19 to 26 lets the request through.\<close>

definition authenticated :: "Env \<Rightarrow> bool" where
  "authenticated env = (\<not> falsy (auth_userId env) \<and> \<not> falsy (auth_orgId env))"

text \<open>
  The incident row the callback creates, the association rows it creates with
  \<open>createMany\<close>, and the store once both are in it.
\<close>

definition created_row :: "Env \<Rightarrow> IncidentData \<Rightarrow> Incident" where
  "created_row env data =
     \<lparr> incident_id = generated_id env,
       incident_title = title data,
       incident_description = description data,
       incident_status = status data,
       incident_impact = impact data,
       incident_type = type data,
       incident_organizationId = organizationId data,
       incident_startedAt = date_now env \<rparr>"

definition created_links :: "Env \<Rightarrow> IncidentData \<Rightarrow> IncidentService list" where
  "created_links env data =
     map (\<lambda>sid. \<lparr>incidentId = generated_id env, serviceId = sid\<rparr>) (serviceIds data)"

definition committed :: "Env \<Rightarrow> IncidentData \<Rightarrow> Db \<Rightarrow> Db" where
  "committed env data d =
     d\<lparr> db_incident := db_incident d @ [created_row env data],
        db_incidentService := db_incidentService d @ created_links env data \<rparr>"

text \<open>What a read of the new identity finds in that store, with its services.\<close>

definition read_back :: "Env \<Rightarrow> IncidentData \<Rightarrow> Db \<Rightarrow> IncidentWithServices option" where
  "read_back env data d =
     map_option (include_services (committed env data d))
       (find (\<lambda>r. incident_id r = generated_id env) (db_incident (committed env data d)))"

text \<open>The first call of the transaction that the store rejects, if one does.\<close>

definition tx_fault :: "Env \<Rightarrow> StoreCall option" where
  "tx_fault env =
     find (store_fails env)
       [IncidentCreate, IncidentServiceCreateMany, IncidentFindUnique, TransactionCommit]"

text \<open>Both lookups of lines 40 to 68 answer, and let the request through.\<close>

definition lookups_pass :: "Env \<Rightarrow> Db \<Rightarrow> string \<Rightarrow> IncidentData \<Rightarrow> bool" where
  "lookups_pass env d orgId data =
     (\<not> store_fails env OrganizationFindFirst \<and>
      find (\<lambda>r. organization_id r = organizationId data \<and> clerkOrgId r = orgId) (db_organization d) \<noteq> None \<and>
      \<not> store_fails env ServiceCount \<and>
      length (filter (\<lambda>r. service_id r \<in> set (serviceIds data) \<and>
                          service_organizationId r = organizationId data) (db_service d))
        = length (serviceIds data))"

text \<open>
  A service with the identity \<open>sid\<close> owned by the organization \<open>org\<close> is in the store.
\<close>

definition owned :: "Db \<Rightarrow> string \<Rightarrow> string \<Rightarrow> bool" where
  "owned d org sid = list_ex (\<lambda>r. service_id r = sid \<and> service_organizationId r = org) (db_service d)"

section \<open>A deployment for the examples\<close>

text \<open>
  The scenario of section 8 of the specification: the organization \<open>O1\<close> with the
  services \<open>S1\<close> and \<open>S2\<close>, another organization with the service \<open>S3\<close>, and a caller
  whose session belongs to \<open>O1\<close>. In the examples an identifier is a string that starts
  with \<open>c\<close> and has at least nine characters.
\<close>

definition example_isCuid :: "string \<Rightarrow> bool" where
  "example_isCuid s = (case s of [] \<Rightarrow> False | c # r \<Rightarrow> c = CHR ''c'' \<and> 8 \<le> length r)"

definition O1 :: string where "O1 = ''corg00001''"

definition O2 :: string where "O2 = ''corg00002''"

definition S1 :: string where "S1 = ''csvc00001''"

definition S2 :: string where "S2 = ''csvc00002''"

definition S3 :: string where "S3 = ''csvc00003''"

definition example_db :: Db where
  "example_db =
     \<lparr> db_organization =
         [ \<lparr>organization_id = O1, clerkOrgId = ''org_A''\<rparr>,
           \<lparr>organization_id = O2, clerkOrgId = ''org_B''\<rparr> ],
       db_service =
         [ \<lparr>service_id = S1, service_name = ''api'', service_description = None,
             service_organizationId = O1\<rparr>,
           \<lparr>service_id = S2, service_name = ''web'', service_description = Some ''site'',
             service_organizationId = O1\<rparr>,
           \<lparr>service_id = S3, service_name = ''mail'', service_description = None,
             service_organizationId = O2\<rparr> ],
       db_incident = [],
       db_incidentService = [] \<rparr>"

definition example_world :: World where
  "example_world = \<lparr> db = example_db, pusher = [], console = [] \<rparr>"

definition example_props :: "string list \<Rightarrow> (string \<times> json) list" where
  "example_props ids =
     [ (''title'', JStr ''API down''),
       (''description'', JStr ''The API answers 500''),
       (''status'', JStr ''investigating''),
       (''impact'', JStr ''major''),
       (''serviceIds'', JArr (map JStr ids)),
       (''organizationId'', JStr O1) ]"

definition example_env :: "json option \<Rightarrow> Env" where
  "example_env body =
     \<lparr> auth_userId = Some ''user_1'',
       auth_orgId = Some ''org_A'',
       req_json = body,
       store_fails = (\<lambda>c. False),
       trigger_fails = False,
       generated_id = ''cinc00001'',
       date_now = 1000 \<rparr>"

text \<open>The example input of section 8 of the specification.\<close>

definition example_bad_props :: "(string \<times> json) list" where
  "example_bad_props =
     [ (''title'', JStr []),
       (''description'', JStr ''short''),
       (''status'', JStr ''bogus''),
       (''impact'', JStr ''minor''),
       (''serviceIds'', JArr []) ]"

section \<open>Facts about the schema and the handler\<close>

lemma issue_keys_Nil [simp]: "issue_keys [] = {}" by (simp add: issue_keys_def)

lemma issue_keys_append [simp]: "issue_keys (a @ b) = issue_keys a \<union> issue_keys b" by (simp add: issue_keys_def)

lemma issue_keys_Cons_Key [simp]: "issue_keys (ZodIssue c (Key k # r) # is) = insert k (issue_keys is)" by (simp add: issue_keys_def)

lemma check_issues_Nil: "check_issues p s checks = [] \<longleftrightarrow> list_all (\<lambda>c. fst c s) checks"
  by (induction checks) (auto simp: check_issues_def)

lemma issue_keys_map_same: "issue_keys (map (\<lambda>c. ZodIssue (f c) (Key k # r)) xs) = (if xs = [] then {} else {k})"
  by (induction xs) auto

lemma check_issues_keys: "issue_keys (check_issues (Key k # r) s checks) = (if list_all (\<lambda>c. fst c s) checks then {} else {k})"
  using check_issues_Nil [of "Key k # r" s checks]
  by (simp add: check_issues_def issue_keys_map_same)

lemma z_string_status: "p_status (z_string checks p v) = valid \<longleftrightarrow> string_ok checks v"
  by (auto simp: z_string_def string_ok_def INVALID_def Let_def check_issues_Nil split: option.splits json.splits)

lemma z_string_not_aborted: "p_status (z_string checks p v) = aborted \<longleftrightarrow> (\<forall>s. v \<noteq> Some (JStr s))"
  by (auto simp: z_string_def string_ok_def INVALID_def Let_def check_issues_Nil split: option.splits json.splits)

lemma z_string_value: "string_ok checks v \<Longrightarrow> p_value (z_string checks p v) = v"
  by (auto simp: z_string_def string_ok_def INVALID_def Let_def split: option.splits json.splits)

lemma z_string_keys: "issue_keys (p_issues (z_string checks (Key k # r) v)) = (if string_ok checks v then {} else {k})"
  by (auto simp: z_string_def string_ok_def INVALID_def Let_def check_issues_keys split: option.splits json.splits)

lemma z_string_issues_Nil: "p_issues (z_string checks p v) = [] \<longleftrightarrow> string_ok checks v"
  by (auto simp: z_string_def string_ok_def INVALID_def Let_def check_issues_Nil split: option.splits json.splits)

lemma z_enum_status: "p_status (z_enum vals p v) = valid \<longleftrightarrow> enum_ok vals v"
  by (auto simp: z_enum_def enum_ok_def INVALID_def split: option.splits json.splits)

lemma z_enum_status': "p_status (z_enum vals p v) = (if enum_ok vals v then valid else aborted)"
  by (auto simp: z_enum_def enum_ok_def INVALID_def split: option.splits json.splits)

lemma z_enum_value: "enum_ok vals v \<Longrightarrow> p_value (z_enum vals p v) = v"
  by (auto simp: z_enum_def enum_ok_def INVALID_def split: option.splits json.splits)

lemma z_enum_keys: "issue_keys (p_issues (z_enum vals (Key k # r) v)) = (if enum_ok vals v then {} else {k})"
  by (auto simp: z_enum_def enum_ok_def INVALID_def split: option.splits json.splits)

lemma z_enum_issues_Nil: "p_issues (z_enum vals p v) = [] \<longleftrightarrow> enum_ok vals v"
  by (auto simp: z_enum_def enum_ok_def INVALID_def split: option.splits json.splits)

lemma issue_keys_concat: "issue_keys (concat xss) = (\<Union>xs\<in>set xss. issue_keys xs)"
  by (induction xss) auto

lemma snd_set_enumerate: "snd ` set (enumerate n xs) = set xs"
  by (metis list.set_map map_snd_enumerate)

lemma elem_results_Nil [simp]: "elem_results checks p n [] = []"
  by (simp add: elem_results_def)

lemma elem_results_Cons [simp]:
  "elem_results checks p n (x # xs) = z_string checks (p @ [Index n]) (Some x) # elem_results checks p (Suc n) xs"
  by (simp add: elem_results_def)

lemma elems_issue_keys:
  "issue_keys (concat (map p_issues (elem_results checks (Key k # r) n xs)))
   = (if list_all (\<lambda>x. string_ok checks (Some x)) xs then {} else {k})"
  by (induction xs arbitrary: n) (auto simp: z_string_keys)

lemma elems_issues_Nil:
  "concat (map p_issues (elem_results checks p n xs)) = []
   \<longleftrightarrow> list_all (\<lambda>x. string_ok checks (Some x)) xs"
  by (induction xs arbitrary: n) (auto simp: z_string_issues_Nil)

lemma elems_all_valid:
  "(\<not> list_ex (\<lambda>r. p_status r = aborted) (elem_results checks p n xs)
    \<and> \<not> list_ex (\<lambda>r. p_status r = dirty) (elem_results checks p n xs))
   \<longleftrightarrow> list_all (\<lambda>x. string_ok checks (Some x)) xs"
proof (induction xs arbitrary: n)
  case Nil
  show ?case by simp
next
  case (Cons x xs)
  have "p_status (z_string checks (p @ [Index n]) (Some x)) \<noteq> aborted
        \<and> p_status (z_string checks (p @ [Index n]) (Some x)) \<noteq> dirty
        \<longleftrightarrow> string_ok checks (Some x)"
    using z_string_status [of checks "p @ [Index n]" "Some x"]
    by (cases "p_status (z_string checks (p @ [Index n]) (Some x))") auto
  with Cons.IH [of "Suc n"] show ?case by auto
qed

lemma elems_values:
  "list_all (\<lambda>x. string_ok checks (Some x)) xs \<Longrightarrow>
   concat (map (\<lambda>r. case p_value r of None \<Rightarrow> [] | Some v \<Rightarrow> [v]) (elem_results checks p n xs)) = xs"
  by (induction xs arbitrary: n) (simp_all add: z_string_value)

lemma z_array_JArr:
  "z_array (z_string checks) (Some m) p (Some (JArr xs)) =
     mergeArray (if length xs < m then [ZodIssue too_small p] else []) (elem_results checks p 0 xs)"
  by (simp add: z_array_def elem_results_def)

lemma z_array_other:
  "(\<forall>xs. v \<noteq> Some (JArr xs)) \<Longrightarrow> z_array elem m p v = INVALID [ZodIssue invalid_type p]"
  by (auto simp: z_array_def split: option.splits json.splits)

lemma z_array_issues_Nil:
  "p_issues (z_array (z_string checks) (Some m) p v) = [] \<longleftrightarrow> array_ok checks m v"
proof (cases "\<exists>xs. v = Some (JArr xs)")
  case True
  then obtain xs where v: "v = Some (JArr xs)" by blast
  show ?thesis
    unfolding v z_array_JArr
    using elems_issues_Nil [of checks p 0 xs]
    by (auto simp: mergeArray_def INVALID_def Let_def array_ok_def)
next
  case False
  then show ?thesis
    by (auto simp: z_array_other INVALID_def array_ok_def split: option.splits json.splits)
qed

lemma z_array_status:
  "p_status (z_array (z_string checks) (Some m) p v) = valid \<longleftrightarrow> array_ok checks m v"
proof (cases "\<exists>xs. v = Some (JArr xs)")
  case True
  then obtain xs where v: "v = Some (JArr xs)" by blast
  show ?thesis
    unfolding v z_array_JArr
    using elems_all_valid [of checks p 0 xs]
    by (auto simp: mergeArray_def INVALID_def Let_def array_ok_def)
next
  case False
  then show ?thesis
    by (auto simp: z_array_other INVALID_def array_ok_def split: option.splits json.splits)
qed

lemma z_array_value:
  "array_ok checks m v \<Longrightarrow> p_value (z_array (z_string checks) (Some m) p v) = v"
proof -
  assume ok: "array_ok checks m v"
  then obtain xs where v: "v = Some (JArr xs)"
    by (auto simp: array_ok_def split: option.splits json.splits)
  from ok have all: "list_all (\<lambda>x. string_ok checks (Some x)) xs" and len: "m \<le> length xs"
    by (simp_all add: array_ok_def v)
  show ?thesis
    unfolding v z_array_JArr
    using elems_all_valid [of checks p 0 xs] all len
    by (simp add: mergeArray_def INVALID_def Let_def elems_values)
qed

lemma z_array_keys:
  "issue_keys (p_issues (z_array (z_string checks) (Some m) (Key k # r) v)) =
     (if array_ok checks m v then {} else {k})"
proof (cases "\<exists>xs. v = Some (JArr xs)")
  case True
  then obtain xs where v: "v = Some (JArr xs)" by blast
  show ?thesis
    unfolding v z_array_JArr
    by (auto simp: mergeArray_def INVALID_def Let_def array_ok_def elems_issue_keys)
next
  case False
  then show ?thesis
    by (auto simp: z_array_other INVALID_def array_ok_def split: option.splits json.splits)
qed

lemma title_rule_iff: "string_ok [z_min 1, z_max 100] v = title_rule v"
  by (auto simp: string_ok_def title_rule_def z_min_def z_max_def split: option.splits json.splits)

lemma description_rule_iff: "string_ok [z_min 10, z_max 1000] v = description_rule v"
  by (auto simp: string_ok_def description_rule_def z_min_def z_max_def split: option.splits json.splits)

lemma status_rule_iff:
  "enum_ok [''investigating'', ''identified'', ''monitoring'', ''resolved''] v = status_rule v"
  by (auto simp: enum_ok_def status_rule_def split: option.splits json.splits)

lemma impact_rule_iff: "enum_ok [''minor'', ''major'', ''critical''] v = impact_rule v"
  by (auto simp: enum_ok_def impact_rule_def split: option.splits json.splits)

lemma identifier_rule_iff: "string_ok [z_cuid isCuid] v = identifier_rule isCuid v"
  by (auto simp: string_ok_def identifier_rule_def z_cuid_def split: option.splits json.splits)

lemma serviceIds_rule_iff: "array_ok [z_cuid isCuid] 1 v = serviceIds_rule isCuid v"
  by (auto simp: array_ok_def serviceIds_rule_def identifier_rule_iff Suc_le_eq split: option.splits json.splits)

lemma z_default_optional_enum:
  "z_default (z_optional (z_enum vals)) (JStr ''incident'') p v = z_enum vals p (with_default v)"
  by (simp add: z_default_def z_optional_def with_default_def split: option.splits)

lemma type_rule_iff: "enum_ok [''incident'', ''maintenance''] (with_default v) = type_rule v"
  by (auto simp: enum_ok_def type_rule_def with_default_def split: option.splits json.splits)

lemma incidentSchema_object:
  "incidentSchema isCuid p (Some (JObj props)) =
     mergeObjectSync
       [ (''title'', z_string [z_min 1, z_max 100] (p @ [Key ''title'']) (map_of props ''title'')),
         (''description'', z_string [z_min 10, z_max 1000] (p @ [Key ''description'']) (map_of props ''description'')),
         (''status'', z_enum [''investigating'', ''identified'', ''monitoring'', ''resolved''] (p @ [Key ''status'']) (map_of props ''status'')),
         (''impact'', z_enum [''minor'', ''major'', ''critical''] (p @ [Key ''impact'']) (map_of props ''impact'')),
         (''serviceIds'', z_array (z_string [z_cuid isCuid]) (Some 1) (p @ [Key ''serviceIds'']) (map_of props ''serviceIds'')),
         (''organizationId'', z_string [z_cuid isCuid] (p @ [Key ''organizationId'']) (map_of props ''organizationId'')),
         (''type'', z_enum [''incident'', ''maintenance''] (p @ [Key ''type'']) (with_default (map_of props ''type''))) ]"
  by (simp add: incidentSchema_def z_object_def z_default_optional_enum)

lemma incidentSchema_other:
  "(\<forall>props. v \<noteq> Some (JObj props)) \<Longrightarrow> incidentSchema isCuid p v = INVALID [ZodIssue invalid_type p]"
  by (auto simp: incidentSchema_def z_object_def split: option.splits json.splits)

lemma status_cases: "s \<noteq> aborted \<and> s \<noteq> dirty \<longleftrightarrow> s = valid"
  by (cases s) auto

lemma all_valid_iff:
  "list_all (\<lambda>(k, r). p_status r = valid) pairs \<longleftrightarrow>
     \<not> list_ex (\<lambda>(k, r). p_status r = aborted) pairs \<and> \<not> list_ex (\<lambda>(k, r). p_status r = dirty) pairs"
proof (induction pairs)
  case Nil
  show ?case by simp
next
  case (Cons x pairs)
  obtain k r where x: "x = (k, r)" by (cases x)
  show ?case
    unfolding x using Cons.IH by (cases "p_status r") simp_all
qed

lemma mergeObjectSync_status:
  "p_status (mergeObjectSync pairs) = valid \<longleftrightarrow> list_all (\<lambda>(k, r). p_status r = valid) pairs"
  unfolding all_valid_iff by (simp add: mergeObjectSync_def INVALID_def Let_def)

lemma violated_empty:
  "violated isCuid props = {} \<longleftrightarrow>
     title_rule (map_of props ''title'') \<and> description_rule (map_of props ''description'') \<and>
     status_rule (map_of props ''status'') \<and> impact_rule (map_of props ''impact'') \<and>
     serviceIds_rule isCuid (map_of props ''serviceIds'') \<and>
     identifier_rule isCuid (map_of props ''organizationId'') \<and> type_rule (map_of props ''type'')"
  by (simp add: violated_def)

lemma incidentSchema_status:
  "p_status (incidentSchema isCuid p (Some (JObj props))) = valid \<longleftrightarrow> violated isCuid props = {}"
  unfolding incidentSchema_object mergeObjectSync_status violated_empty
  by (simp only: list.pred_inject case_prod_conv z_string_status z_enum_status z_array_status
        title_rule_iff description_rule_iff status_rule_iff impact_rule_iff
        serviceIds_rule_iff identifier_rule_iff type_rule_iff simp_thms)

lemma incidentSchema_keys:
  "issue_keys (p_issues (incidentSchema isCuid [] (Some (JObj props)))) = violated isCuid props"
proof -
  have "p_issues (incidentSchema isCuid [] (Some (JObj props))) =
        p_issues (z_string [z_min 1, z_max 100] [Key ''title''] (map_of props ''title'')) @
        p_issues (z_string [z_min 10, z_max 1000] [Key ''description''] (map_of props ''description'')) @
        p_issues (z_enum [''investigating'', ''identified'', ''monitoring'', ''resolved''] [Key ''status''] (map_of props ''status'')) @
        p_issues (z_enum [''minor'', ''major'', ''critical''] [Key ''impact''] (map_of props ''impact'')) @
        p_issues (z_array (z_string [z_cuid isCuid]) (Some 1) [Key ''serviceIds''] (map_of props ''serviceIds'')) @
        p_issues (z_string [z_cuid isCuid] [Key ''organizationId''] (map_of props ''organizationId'')) @
        p_issues (z_enum [''incident'', ''maintenance''] [Key ''type''] (with_default (map_of props ''type'')))"
    unfolding incidentSchema_object
    by (simp add: mergeObjectSync_def INVALID_def Let_def)
  then show ?thesis
    by (simp only: issue_keys_append z_string_keys z_enum_keys z_array_keys violated_def
          title_rule_iff description_rule_iff status_rule_iff impact_rule_iff
          serviceIds_rule_iff identifier_rule_iff type_rule_iff Un_assoc)
qed

lemma rule_SomeD:
  "title_rule v \<Longrightarrow> \<exists>x. v = Some x"
  "description_rule v \<Longrightarrow> \<exists>x. v = Some x"
  "status_rule v \<Longrightarrow> \<exists>x. v = Some x"
  "impact_rule v \<Longrightarrow> \<exists>x. v = Some x"
  "serviceIds_rule isCuid v \<Longrightarrow> \<exists>x. v = Some x"
  "identifier_rule isCuid v \<Longrightarrow> \<exists>x. v = Some x"
  by (auto simp: title_rule_def description_rule_def status_rule_def impact_rule_def
        serviceIds_rule_def identifier_rule_def split: option.splits)

lemma incidentSchema_destructure:
  assumes "violated isCuid props = {}"
  shows "destructure (p_value (incidentSchema isCuid [] (Some (JObj props)))) = Inr (parsed_data props)"
proof -
  from assms have ok:
    "title_rule (map_of props ''title'')" "description_rule (map_of props ''description'')"
    "status_rule (map_of props ''status'')" "impact_rule (map_of props ''impact'')"
    "serviceIds_rule isCuid (map_of props ''serviceIds'')"
    "identifier_rule isCuid (map_of props ''organizationId'')" "type_rule (map_of props ''type'')"
    by (simp_all add: violated_empty)
  obtain t where t: "map_of props ''title'' = Some t" using ok(1) rule_SomeD(1) by blast
  obtain d where d: "map_of props ''description'' = Some d" using ok(2) rule_SomeD(2) by blast
  obtain s where s: "map_of props ''status'' = Some s" using ok(3) rule_SomeD(3) by blast
  obtain i where i: "map_of props ''impact'' = Some i" using ok(4) rule_SomeD(4) by blast
  obtain ids where ids: "map_of props ''serviceIds'' = Some ids" using ok(5) rule_SomeD(5) by blast
  obtain org where org: "map_of props ''organizationId'' = Some org" using ok(6) rule_SomeD(6) by blast
  obtain ty where ty: "with_default (map_of props ''type'') = Some ty"
    by (cases "map_of props ''type''") (simp_all add: with_default_def)
  note some = t d s i ids org ty
  have e1: "string_ok [z_min 1, z_max 100] (map_of props ''title'')"
    using ok(1) by (simp only: title_rule_iff)
  have e2: "string_ok [z_min 10, z_max 1000] (map_of props ''description'')"
    using ok(2) by (simp only: description_rule_iff)
  have e3: "enum_ok [''investigating'', ''identified'', ''monitoring'', ''resolved''] (map_of props ''status'')"
    using ok(3) by (simp only: status_rule_iff)
  have e4: "enum_ok [''minor'', ''major'', ''critical''] (map_of props ''impact'')"
    using ok(4) by (simp only: impact_rule_iff)
  have e5: "array_ok [z_cuid isCuid] 1 (map_of props ''serviceIds'')"
    using ok(5) by (simp only: serviceIds_rule_iff)
  have e6: "string_ok [z_cuid isCuid] (map_of props ''organizationId'')"
    using ok(6) by (simp only: identifier_rule_iff)
  have e7: "enum_ok [''incident'', ''maintenance''] (with_default (map_of props ''type''))"
    using ok(7) by (simp only: type_rule_iff)
  have v1: "p_value (z_string [z_min 1, z_max 100] [Key ''title''] (map_of props ''title'')) = Some t"
    using z_string_value [OF e1] by (simp only: t)
  have v2: "p_value (z_string [z_min 10, z_max 1000] [Key ''description''] (map_of props ''description'')) = Some d"
    using z_string_value [OF e2] by (simp only: d)
  have v3: "p_value (z_enum [''investigating'', ''identified'', ''monitoring'', ''resolved''] [Key ''status''] (map_of props ''status'')) = Some s"
    using z_enum_value [OF e3] by (simp only: s)
  have v4: "p_value (z_enum [''minor'', ''major'', ''critical''] [Key ''impact''] (map_of props ''impact'')) = Some i"
    using z_enum_value [OF e4] by (simp only: i)
  have v5: "p_value (z_array (z_string [z_cuid isCuid]) (Some 1) [Key ''serviceIds''] (map_of props ''serviceIds'')) = Some ids"
    using z_array_value [OF e5] by (simp only: ids)
  have v6: "p_value (z_string [z_cuid isCuid] [Key ''organizationId''] (map_of props ''organizationId'')) = Some org"
    using z_string_value [OF e6] by (simp only: org)
  have v7: "p_value (z_enum [''incident'', ''maintenance''] [Key ''type''] (with_default (map_of props ''type''))) = Some ty"
    using z_enum_value [OF e7] by (simp only: ty)
  have s1: "p_status (z_string [z_min 1, z_max 100] [Key ''title''] (map_of props ''title'')) = valid"
    using e1 by (simp only: z_string_status)
  have s2: "p_status (z_string [z_min 10, z_max 1000] [Key ''description''] (map_of props ''description'')) = valid"
    using e2 by (simp only: z_string_status)
  have s3: "p_status (z_enum [''investigating'', ''identified'', ''monitoring'', ''resolved''] [Key ''status''] (map_of props ''status'')) = valid"
    using e3 by (simp only: z_enum_status)
  have s4: "p_status (z_enum [''minor'', ''major'', ''critical''] [Key ''impact''] (map_of props ''impact'')) = valid"
    using e4 by (simp only: z_enum_status)
  have s5: "p_status (z_array (z_string [z_cuid isCuid]) (Some 1) [Key ''serviceIds''] (map_of props ''serviceIds'')) = valid"
    using e5 by (simp only: z_array_status)
  have s6: "p_status (z_string [z_cuid isCuid] [Key ''organizationId''] (map_of props ''organizationId'')) = valid"
    using e6 by (simp only: z_string_status)
  have s7: "p_status (z_enum [''incident'', ''maintenance''] [Key ''type''] (with_default (map_of props ''type''))) = valid"
    using e7 by (simp only: z_enum_status)
  have obj: "mergeObjectSync
       [(''title'', r1), (''description'', r2), (''status'', r3), (''impact'', r4),
        (''serviceIds'', r5), (''organizationId'', r6), (''type'', r7)] =
      ParseReturn valid
        (Some (JObj [(''title'', t), (''description'', d), (''status'', s), (''impact'', i),
                    (''serviceIds'', ids), (''organizationId'', org), (''type'', ty)]))
        []"
    if "p_status r1 = valid" "p_status r2 = valid" "p_status r3 = valid" "p_status r4 = valid"
       "p_status r5 = valid" "p_status r6 = valid" "p_status r7 = valid"
       "p_value r1 = Some t" "p_value r2 = Some d" "p_value r3 = Some s" "p_value r4 = Some i"
       "p_value r5 = Some ids" "p_value r6 = Some org" "p_value r7 = Some ty"
       "p_issues r1 = []" "p_issues r2 = []" "p_issues r3 = []" "p_issues r4 = []"
       "p_issues r5 = []" "p_issues r6 = []" "p_issues r7 = []"
    for r1 r2 r3 r4 r5 r6 r7
    using that by (simp add: mergeObjectSync_def INVALID_def Let_def)
  have "p_value (incidentSchema isCuid [] (Some (JObj props))) =
        Some (JObj [(''title'', t), (''description'', d), (''status'', s), (''impact'', i),
                    (''serviceIds'', ids), (''organizationId'', org), (''type'', ty)])"
    unfolding incidentSchema_object append_Nil
    by (subst obj)
       (simp_all only: v1 v2 v3 v4 v5 v6 v7 s1 s2 s3 s4 s5 s6 s7 e1 e2 e3 e4 e5 e6 e7
          z_string_issues_Nil z_enum_issues_Nil z_array_issues_Nil ParseReturn.sel)
  then show ?thesis
    by (simp add: destructure_def parsed_data_def some)
qed

lemma safeParse_object:
  "safeParse (incidentSchema isCuid) (JObj props) =
     (if violated isCuid props = {}
      then SafeParseSuccess (p_value (incidentSchema isCuid [] (Some (JObj props))))
      else SafeParseError (p_issues (incidentSchema isCuid [] (Some (JObj props)))))"
  by (simp add: safeParse_def Let_def incidentSchema_status)

lemma safeParse_other:
  "(\<forall>props. j \<noteq> JObj props) \<Longrightarrow> safeParse (incidentSchema isCuid) j = SafeParseError [ZodIssue invalid_type []]"
  by (simp add: safeParse_def Let_def incidentSchema_other INVALID_def)

lemma count_eq_length:
  assumes pk: "distinct (map key rows)"
  shows "length (filter (\<lambda>r. key r \<in> set ids \<and> P r) rows) = length ids \<longleftrightarrow>
         distinct ids \<and> (\<forall>i\<in>set ids. \<exists>r\<in>set rows. key r = i \<and> P r)"
proof -
  let ?M = "filter (\<lambda>r. key r \<in> set ids \<and> P r) rows"
  have dM: "distinct (map key ?M)" using pk by (rule distinct_map_filter)
  have sub: "set (map key ?M) \<subseteq> set ids" by auto
  have lenM: "length ?M = card (set (map key ?M))"
    using dM by (metis distinct_card length_map)
  show ?thesis
  proof
    assume eq: "length ?M = length ids"
    have "card (set (map key ?M)) \<le> card (set ids)" using sub by (simp add: card_mono)
    moreover have "card (set ids) \<le> length ids" by (rule card_length)
    ultimately have c: "card (set ids) = length ids" and c2: "card (set (map key ?M)) = card (set ids)"
      using eq lenM by linarith+
    from c have "distinct ids" by (rule card_distinct)
    moreover have "set (map key ?M) = set ids"
      using sub c2 by (simp add: card_subset_eq)
    then have "\<forall>i\<in>set ids. \<exists>r\<in>set rows. key r = i \<and> P r" by force
    ultimately show "distinct ids \<and> (\<forall>i\<in>set ids. \<exists>r\<in>set rows. key r = i \<and> P r)" by blast
  next
    assume a: "distinct ids \<and> (\<forall>i\<in>set ids. \<exists>r\<in>set rows. key r = i \<and> P r)"
    then have "set ids \<subseteq> set (map key ?M)" by force
    with sub have "set (map key ?M) = set ids" by blast
    then have "length ?M = card (set ids)" using lenM by simp
    also have "\<dots> = length ids" using a by (simp add: distinct_card)
    finally show "length ?M = length ids" .
  qed
qed

lemma db_transaction_create:
  "db_transaction env (create_callback env data) d =
     (case tx_fault env of
        Some c \<Rightarrow> (Inl (StoreError c), d)
      | None \<Rightarrow> (Inr (read_back env data d), committed env data d))"
  by (simp add: db_transaction_def create_callback_def tx_incident_create_def
        tx_incidentService_createMany_def tx_incident_findUnique_def tx_fault_def
        read_back_def committed_def created_row_def created_links_def)

lemma world_db_same [simp]: "w\<lparr>db := db w\<rparr> = w"
  by simp

lemma write_and_notify_eq:
  "write_and_notify env data w =
     (case tx_fault env of
        Some c \<Rightarrow> (Inl (StoreError c), w)
      | None \<Rightarrow>
          if trigger_fails env then (Inl PusherError, w\<lparr>db := committed env data (db w)\<rparr>)
          else (Inr (NextResponse_json (IncidentBody (read_back env data (db w))) 200),
                w\<lparr>db := committed env data (db w),
                  pusher := pusher w @ [(''org-'' @ organizationId data, ''incident-created'',
                                          read_back env data (db w))]\<rparr>))"
  by (simp add: write_and_notify_def db_transaction_create pusherServer_trigger_def
        split: option.splits)

lemma authorize_and_write_pass:
  "lookups_pass env (db w) orgId data \<Longrightarrow>
   authorize_and_write env orgId data w = write_and_notify env data w"
  by (auto simp: authorize_and_write_def lookups_pass_def db_organization_findFirst_def
        db_service_count_def split: option.splits)

lemma authorize_and_write_stop:
  "\<not> lookups_pass env (db w) orgId data \<Longrightarrow>
   authorize_and_write env orgId data w =
     (if store_fails env OrganizationFindFirst then (Inl (StoreError OrganizationFindFirst), w)
      else if find (\<lambda>r. organization_id r = organizationId data \<and> clerkOrgId r = orgId)
                (db_organization (db w)) = None
      then (Inr (NextResponse_json (ErrorBody ''Organization not found'') 404), w)
      else if store_fails env ServiceCount then (Inl (StoreError ServiceCount), w)
      else (Inr (NextResponse_json (ErrorBody ''One or more services not found'') 400), w))"
  by (auto simp: authorize_and_write_def lookups_pass_def db_organization_findFirst_def
        db_service_count_def split: option.splits)

lemma POST_try_unauthenticated:
  "\<not> authenticated env \<Longrightarrow>
   POST_try isCuid env w = (Inr (NextResponse_json (ErrorBody ''Unauthorized'') 401), w)"
  by (auto simp: POST_try_def authenticated_def falsy_def split: option.splits)

lemma POST_try_no_json:
  "authenticated env \<Longrightarrow> req_json env = None \<Longrightarrow> POST_try isCuid env w = (Inl SyntaxError, w)"
  by (auto simp: POST_try_def authenticated_def falsy_def split: option.splits)

lemma POST_try_invalid:
  "authenticated env \<Longrightarrow> req_json env = Some j \<Longrightarrow>
   safeParse (incidentSchema isCuid) j = SafeParseError errors \<Longrightarrow>
   POST_try isCuid env w = (Inr (NextResponse_json (InvalidData errors) 400), w)"
  by (auto simp: POST_try_def authenticated_def falsy_def split: option.splits)

lemma POST_try_valid:
  "authenticated env \<Longrightarrow> auth_orgId env = Some orgId \<Longrightarrow> req_json env = Some (JObj props) \<Longrightarrow>
   violated isCuid props = {} \<Longrightarrow>
   POST_try isCuid env w = authorize_and_write env orgId (parsed_data props) w"
  by (auto simp: POST_try_def authenticated_def falsy_def safeParse_object incidentSchema_destructure
        split: option.splits)

lemma committed_neq: "committed env data d \<noteq> d"
proof
  assume "committed env data d = d"
  then have "db_incident (committed env data d) = db_incident d" by simp
  then show False by (simp add: committed_def)
qed

lemma POST_eq:
  "POST isCuid env w =
     (case POST_try isCuid env w of
        (Inr response, w') \<Rightarrow> (response, w')
      | (Inl error, w') \<Rightarrow>
          (NextResponse_json (ErrorBody ''Internal server error'') 500,
           w'\<lparr>console := console w' @ [(''[INCIDENTS_POST]'', error)]\<rparr>))"
  by (simp add: POST_def)

lemma POST_try_outcome:
  "(\<exists>r. POST_try isCuid env w = (r, w) \<and> r \<noteq> Inl PusherError \<and> (\<forall>b. r \<noteq> Inr (NextResponse_json b 200)))
   \<or> (\<exists>orgId props. authenticated env \<and> auth_orgId env = Some orgId \<and> req_json env = Some (JObj props) \<and>
         violated isCuid props = {} \<and> lookups_pass env (db w) orgId (parsed_data props) \<and>
         tx_fault env = None \<and>
         POST_try isCuid env w = write_and_notify env (parsed_data props) w)"
proof (cases "authenticated env")
  case False
  then show ?thesis by (simp add: POST_try_unauthenticated)
next
  case auth: True
  then obtain orgId where orgId: "auth_orgId env = Some orgId"
    by (auto simp: authenticated_def falsy_def split: option.splits)
  show ?thesis
  proof (cases "req_json env")
    case None
    with auth show ?thesis by (simp add: POST_try_no_json)
  next
    case (Some j)
    show ?thesis
    proof (cases "\<exists>props. j = JObj props \<and> violated isCuid props = {}")
      case False
      then have "\<exists>errors. safeParse (incidentSchema isCuid) j = SafeParseError errors"
        by (cases "\<exists>props. j = JObj props") (auto simp: safeParse_object safeParse_other)
      then obtain errors where "safeParse (incidentSchema isCuid) j = SafeParseError errors" ..
      from POST_try_invalid [OF auth Some this] show ?thesis by simp
    next
      case True
      then obtain props where j: "j = JObj props" and ok: "violated isCuid props = {}" by blast
      have eq: "POST_try isCuid env w = authorize_and_write env orgId (parsed_data props) w"
        using POST_try_valid [OF auth orgId _ ok] Some j by simp
      show ?thesis
      proof (cases "lookups_pass env (db w) orgId (parsed_data props)")
        case False
        then show ?thesis
          unfolding eq by (simp add: authorize_and_write_stop)
      next
        case pass: True
        show ?thesis
        proof (cases "tx_fault env")
          case None
          with auth orgId Some j ok pass eq show ?thesis
            by (simp add: authorize_and_write_pass)
        next
          case (Some c)
          then show ?thesis
            unfolding eq by (simp add: authorize_and_write_pass [OF pass] write_and_notify_eq)
        qed
      qed
    qed
  qed
qed

section \<open>The claims\<close>

text \<open>
  C10. For every authenticated request whose body is not parseable as JSON, the create
  handler returns the generic InternalError (500) response rather than an itemized
  ValidationFailed, and no database write occurs in that execution: \<open>req.json()\<close>
  rejects inside the \<open>try\<close> block, the \<open>catch\<close> block prints the error and answers 500,
  and the store and the transport are as they were.
\<close>

theorem POST_unparseable_body:
  assumes "authenticated env" and "req_json env = None"
  shows "fst (POST isCuid env w) = NextResponse_json (ErrorBody ''Internal server error'') 500 \<and>
         db (snd (POST isCuid env w)) = db w \<and>
         pusher (snd (POST isCuid env w)) = pusher w \<and>
         console (snd (POST isCuid env w)) = console w @ [(''[INCIDENTS_POST]'', SyntaxError)]"
  using assms by (simp add: POST_eq POST_try_no_json)

theorem POST_unparseable_body_witness:
  "authenticated (example_env None) \<and> req_json (example_env None) = None \<and>
   fst (POST example_isCuid (example_env None) example_world) =
     NextResponse_json (ErrorBody ''Internal server error'') 500 \<and>
   db (snd (POST example_isCuid (example_env None) example_world)) = example_db \<and>
   pusher (snd (POST example_isCuid (example_env None) example_world)) = [] \<and>
   console (snd (POST example_isCuid (example_env None) example_world)) =
     [(''[INCIDENTS_POST]'', SyntaxError)]"
  using POST_unparseable_body [of "example_env None" example_isCuid example_world]
  by (simp add: authenticated_def falsy_def example_env_def example_world_def)

end
